theory Spec2Isabelle
  imports Complex_Main "HOL-Library.AList"
begin

section \<open>The training script \<^verbatim>\<open>scripts/train_risk_model.py\<close>\<close>

text \<open>
  The script reads a CSV file into a pandas frame, checks its columns, trains a logistic
  regression with scikit-learn, prints a report and writes two JSON documents.

  Conventions of the embedding:
  \<^item> A Python \<^verbatim>\<open>float\<close> is a \<^typ>\<open>real\<close>: the finite value it denotes. Rounding,
    overflow and NaN are outside the model; \<^verbatim>\<open>v * 100.0\<close> is the product \<open>v * 100\<close>.
  \<^item> pandas, NumPy and scikit-learn are not part of the repository. Every call into them
    is a field of the record \<open>world\<close>; a call either raises (\<open>Inl\<close>) or returns
    (\<open>Inr\<close>). What a theorem needs of the libraries is a named hypothesis about the
    world, taken from the libraries' documentation.
  \<^item> A run happens in an ambient state \<open>amb\<close> (the global random generator and whatever
    else differs between two runs of the same program on the same input) and at a clock
    reading \<open>now\<close>. The calls that draw random numbers take the ambient state.
  \<^item> What a run does is the list of its effects, in order: lines printed, directories
    created and files written. A raised exception keeps the effects that came before it.
    Creating a directory and writing a file do not fail in the model.
  \<^item> The command line is taken as parsed, and the imports at the top of the script as
    successful (the script exits with status 1 before \<^verbatim>\<open>main\<close> when one is missing).
\<close>

subsection \<open>Frames, dictionaries, JSON\<close>

text \<open>A pandas \<^verbatim>\<open>DataFrame\<close> with numeric cells: its columns in order, each with its
  cells. \<^verbatim>\<open>read_csv\<close> renames repeated headers, so the names are distinct.\<close>

type_synonym frame = "(string \<times> real list) list"

definition columns :: "frame \<Rightarrow> string list" where
  "columns df = map fst df"

text \<open>\<^verbatim>\<open>len(df)\<close>: the number of rows.\<close>

definition nrows :: "frame \<Rightarrow> nat" where
  "nrows df = (case df of [] \<Rightarrow> 0 | (c, xs) # rest \<Rightarrow> length xs)"

datatype error =
    MissingColumns "string set"
      \<comment> \<open>\<^verbatim>\<open>ValueError(f"Missing required columns: {missing_cols}")\<close>\<close>
  | KeyError string
  | IndexError
  | EmptyArgmax
      \<comment> \<open>\<^verbatim>\<open>ValueError\<close> of \<^verbatim>\<open>np.argmax\<close> on an empty array\<close>
  | Raised string
      \<comment> \<open>any exception raised inside pandas or scikit-learn, with its message\<close>

text \<open>\<^verbatim>\<open>df['c']\<close> and \<^verbatim>\<open>df[[c1, ..., cn]]\<close>.\<close>

definition getitem :: "frame \<Rightarrow> string \<Rightarrow> error + real list" where
  "getitem df c = (case map_of df c of None \<Rightarrow> Inl (KeyError c) | Some xs \<Rightarrow> Inr xs)"

fun getitems :: "frame \<Rightarrow> string list \<Rightarrow> error + frame" where
  "getitems df [] = Inr []"
| "getitems df (c # cs) =
     (case getitem df c of
        Inl e \<Rightarrow> Inl e
      | Inr xs \<Rightarrow> (case getitems df cs of Inl e \<Rightarrow> Inl e | Inr rest \<Rightarrow> Inr ((c, xs) # rest)))"

text \<open>A Python \<^verbatim>\<open>dict\<close> built from key-value pairs in order: a later pair with a key
  already present replaces its value and keeps its place.\<close>

definition py_dict :: "('k \<times> 'v) list \<Rightarrow> ('k \<times> 'v) list" where
  "py_dict kvs = fold (\<lambda>(k, v). AList.update k v) kvs []"

text \<open>\<^verbatim>\<open>xs[0]\<close> and \<^verbatim>\<open>xs[-1]\<close> on a list or array.\<close>

definition first :: "'x list \<Rightarrow> error + 'x" where
  "first xs = (case xs of [] \<Rightarrow> Inl IndexError | x # rest \<Rightarrow> Inr x)"

definition last_item :: "'x list \<Rightarrow> error + 'x" where
  "last_item xs = (if xs = [] then Inl IndexError else Inr (last xs))"

text \<open>\<^verbatim>\<open>np.argmax\<close> of a Boolean array: the index of the first \<^verbatim>\<open>True\<close>, and 0 when
  there is none.\<close>

definition np_argmax :: "bool list \<Rightarrow> error + nat" where
  "np_argmax bs =
     (if bs = [] then Inl EmptyArgmax
      else if True \<in> set bs then Inr (length (takeWhile Not bs)) else Inr 0)"

text \<open>\<^verbatim>\<open>a.mean()\<close> and \<^verbatim>\<open>a.std()\<close> of a NumPy array (the population deviation). On
  an empty array NumPy gives NaN, which is outside the model; cross-validation with
  \<^verbatim>\<open>cv=5\<close> returns five scores.\<close>

definition np_mean :: "real list \<Rightarrow> real" where
  "np_mean xs = sum_list xs / real (length xs)"

definition np_std :: "real list \<Rightarrow> real" where
  "np_std xs = sqrt (np_mean (map (\<lambda>x. (x - np_mean xs)\<^sup>2) xs))"

datatype json = JNum real | JStr string | JObj "(string \<times> json) list"

subsection \<open>The libraries\<close>

text \<open>The arguments of \<^verbatim>\<open>LogisticRegression(...)\<close>, and the estimator object: its
  arguments and, once fitted, \<^verbatim>\<open>coef_\<close> and \<^verbatim>\<open>intercept_\<close>.\<close>

record lr_params =
  penalty :: string
  reg_C :: real
  solver :: string
  max_iter :: nat
  random_state :: "nat option"

record estimator =
  params :: lr_params
  est_coef :: "real list list"
  est_intercept :: "real list"

record 'a world =
  read_csv :: "string \<Rightarrow> error + frame"
  train_test_split ::
    "'a \<Rightarrow> frame \<Rightarrow> real list \<Rightarrow> real \<Rightarrow> nat option \<Rightarrow> real list option
      \<Rightarrow> error + frame \<times> frame \<times> real list \<times> real list"
    \<comment> \<open>\<open>X y test_size random_state stratify\<close>, giving \<open>(X_train, X_test, y_train, y_test)\<close>\<close>
  fit :: "'a \<Rightarrow> lr_params \<Rightarrow> frame \<Rightarrow> real list \<Rightarrow> error + real list list \<times> real list"
    \<comment> \<open>\<open>coef_\<close> and \<open>intercept_\<close> of the fitted estimator\<close>
  predict :: "estimator \<Rightarrow> frame \<Rightarrow> error + real list"
  predict_proba_1 :: "estimator \<Rightarrow> frame \<Rightarrow> error + real list"
    \<comment> \<open>\<^verbatim>\<open>model.predict_proba(X)[:, 1]\<close>\<close>
  roc_auc_score :: "real list \<Rightarrow> real list \<Rightarrow> error + real"
  cross_val_score ::
    "'a \<Rightarrow> estimator \<Rightarrow> frame \<Rightarrow> real list \<Rightarrow> nat \<Rightarrow> string \<Rightarrow> error + real list"
    \<comment> \<open>\<open>estimator X y cv scoring\<close>\<close>
  precision_recall_curve ::
    "real list \<Rightarrow> real list \<Rightarrow> error + real list \<times> real list \<times> real list"
    \<comment> \<open>\<open>(precision, recall, thresholds)\<close>\<close>
  classification_report :: "real list \<Rightarrow> real list \<Rightarrow> string list \<Rightarrow> error + string"
  confusion_matrix :: "real list \<Rightarrow> real list \<Rightarrow> error + nat list list"

subsection \<open>Effects\<close>

datatype msg =
    LoadingData string
      \<comment> \<open>\<^verbatim>\<open>Loading data from {filepath}...\<close>\<close>
  | Loaded nat real real
      \<comment> \<open>\<^verbatim>\<open>Loaded {len(df)} samples ({y.sum()} rug pulls, {len(y) - y.sum()} legitimate)\<close>\<close>
  | TrainingModel
  | ModelPerformance real real real real
      \<comment> \<open>AUC-ROC, cross-validation mean, twice its deviation, precision at 90% recall\<close>
  | ClassificationReport string
  | ConfusionMatrix "nat list list"
  | TopFeatures "(string \<times> real) list"
  | WeightsSaved string string
  | MetricsSaved string string
  | WarnLowAUC
      \<comment> \<open>\<^verbatim>\<open>WARNING: Model AUC-ROC is below recommended threshold of 0.75\<close>\<close>
  | ConsiderMoreData
  | MeetsRequirements
      \<comment> \<open>\<^verbatim>\<open>Model meets performance requirements (AUC >= 0.85)\<close>\<close>
  | TrainingComplete
  | IntegrationHints string
  | ErrorMsg error
      \<comment> \<open>\<^verbatim>\<open>Error: {e}\<close>\<close>

datatype effect =
    Print msg
  | Mkdir string
  | WriteFile string string json
      \<comment> \<open>directory, file name, document\<close>

type_synonym 'r io = "effect list \<times> (error + 'r)"

definition return_io :: "'r \<Rightarrow> 'r io" where
  "return_io x = ([], Inr x)"

definition raise_io :: "error \<Rightarrow> 'r io" where
  "raise_io e = ([], Inl e)"

definition lib_call :: "error + 'r \<Rightarrow> 'r io" where
  "lib_call r = ([], r)"

definition emit :: "effect \<Rightarrow> unit io" where
  "emit e = ([e], Inr ())"

definition bind_io :: "'r io \<Rightarrow> ('r \<Rightarrow> 's io) \<Rightarrow> 's io" where
  "bind_io m f =
     (case m of
        (t, Inl e) \<Rightarrow> (t, Inl e)
      | (t, Inr x) \<Rightarrow> (case f x of (u, r) \<Rightarrow> (t @ u, r)))"

subsection \<open>\<^verbatim>\<open>load_data\<close>\<close>

definition required_cols :: "string list" where
  "required_cols =
     [''gini_coefficient'', ''top_10_percentage'', ''total_holders'',
      ''liquidity_usd'', ''has_mint_authority'', ''has_freeze_authority'',
      ''verified'', ''audited'', ''community_trust_score'', ''sentiment_score'',
      ''token_age_days'', ''volume_24h'', ''price_volatility'', ''is_rug_pull'']"

definition load_data :: "'a world \<Rightarrow> string \<Rightarrow> (frame \<times> real list) io" where
  "load_data W filepath =
     bind_io (emit (Print (LoadingData filepath))) (\<lambda>_.
     bind_io (lib_call (read_csv W filepath)) (\<lambda>df.
       let missing_cols = set required_cols - set (columns df) in
       if missing_cols \<noteq> {} then raise_io (MissingColumns missing_cols)
       else
         bind_io (lib_call (getitems df (butlast required_cols))) (\<lambda>X.
         bind_io (lib_call (getitem df ''is_rug_pull'')) (\<lambda>y.
         bind_io (emit (Print (Loaded (nrows df) (sum_list y) (real (length y) - sum_list y)))) (\<lambda>_.
         return_io (X, y))))))"

text \<open>What \<^verbatim>\<open>load_data\<close> returns for a frame that has every required column: the
  thirteen feature columns in the order of \<open>required_cols\<close>, and the label column.\<close>

definition features_of :: "frame \<Rightarrow> frame" where
  "features_of df = map (\<lambda>c. (c, the (map_of df c))) (butlast required_cols)"

definition labels_of :: "frame \<Rightarrow> real list" where
  "labels_of df = the (map_of df ''is_rug_pull'')"

subsection \<open>\<^verbatim>\<open>train_model\<close>\<close>

record results =
  model :: estimator
  auc_roc :: real
  cv_scores :: "real list"
  precision_at_90_recall :: real
  X_test :: frame
  y_test :: "real list"
  y_pred_proba :: "real list"
  feature_importance :: "(string \<times> real) list"

text \<open>The two calls that are given a seed (lines 68 to 80).\<close>

definition lr_args :: lr_params where
  "lr_args = \<lparr>penalty = ''l2'', reg_C = 1, solver = ''lbfgs'', max_iter = 1000,
              random_state = Some 42\<rparr>"

definition split_call ::
  "'a world \<Rightarrow> 'a \<Rightarrow> frame \<Rightarrow> real list \<Rightarrow> real \<Rightarrow> error + frame \<times> frame \<times> real list \<times> real list"
where
  "split_call W amb X y test_size = train_test_split W amb X y test_size (Some 42) (Some y)"

definition fit_call :: "'a world \<Rightarrow> 'a \<Rightarrow> frame \<Rightarrow> real list \<Rightarrow> error + estimator" where
  "fit_call W amb X_train y_train =
     (case fit W amb lr_args X_train y_train of
        Inl e \<Rightarrow> Inl e
      | Inr (c, i) \<Rightarrow> Inr \<lparr>params = lr_args, est_coef = c, est_intercept = i\<rparr>)"

text \<open>Lines 96 and 97: the precision at the first index whose recall is at least 0.9.\<close>

definition precision_at_90 :: "real list \<Rightarrow> real list \<Rightarrow> error + real" where
  "precision_at_90 precision recall =
     (case np_argmax (map (\<lambda>r. r \<ge> 0.9) recall) of
        Inl e \<Rightarrow> Inl e
      | Inr idx_90_recall \<Rightarrow>
          if idx_90_recall < length precision then Inr (precision ! idx_90_recall)
          else last_item precision)"

definition train_model :: "'a world \<Rightarrow> 'a \<Rightarrow> frame \<Rightarrow> real list \<Rightarrow> real \<Rightarrow> results io" where
  "train_model W amb X y test_size =
     bind_io (emit (Print TrainingModel)) (\<lambda>_.
     bind_io (lib_call (split_call W amb X y test_size)) (\<lambda>(X_train, X_test', y_train, y_test').
     bind_io (lib_call (fit_call W amb X_train y_train)) (\<lambda>m.
     bind_io (lib_call (predict W m X_test')) (\<lambda>y_pred.
     bind_io (lib_call (predict_proba_1 W m X_test')) (\<lambda>proba.
     bind_io (lib_call (roc_auc_score W y_test' proba)) (\<lambda>auc_score.
     bind_io (lib_call (cross_val_score W amb m X_train y_train 5 ''roc_auc'')) (\<lambda>cv.
     bind_io (lib_call (precision_recall_curve W y_test' proba)) (\<lambda>(precision, recall, thresholds).
     bind_io (lib_call (precision_at_90 precision recall)) (\<lambda>p90.
     bind_io (emit (Print (ModelPerformance auc_score (np_mean cv) (np_std cv * 2) p90))) (\<lambda>_.
     bind_io (lib_call (classification_report W y_test' y_pred [''Legitimate'', ''Rug Pull''])) (\<lambda>report.
     bind_io (emit (Print (ClassificationReport report))) (\<lambda>_.
     bind_io (lib_call (confusion_matrix W y_test' y_pred)) (\<lambda>cm.
     bind_io (emit (Print (ConfusionMatrix cm))) (\<lambda>_.
     bind_io (lib_call (first (est_coef m))) (\<lambda>coef0.
       let importance = py_dict (zip (columns X) (map abs coef0));
           sorted_features = sort_key (\<lambda>(f, i). - i) importance
       in
     bind_io (emit (Print (TopFeatures (take 5 sorted_features)))) (\<lambda>_.
     return_io \<lparr>model = m, auc_roc = auc_score, cv_scores = cv,
                precision_at_90_recall = p90, X_test = X_test', y_test = y_test',
                y_pred_proba = proba, feature_importance = importance\<rparr>))))))))))))))))"

subsection \<open>\<^verbatim>\<open>export_model\<close>\<close>

definition jnums :: "(string \<times> real) list \<Rightarrow> json" where
  "jnums d = JObj (map (\<lambda>(k, v). (k, JNum v)) d)"

text \<open>The dictionary \<^verbatim>\<open>model_data\<close> (lines 134 to 148), from the frame, \<^verbatim>\<open>model.coef_[0]\<close>
  and \<^verbatim>\<open>model.intercept_[0]\<close>; and the dictionary \<^verbatim>\<open>metrics\<close> (lines 157 to 164).\<close>

definition model_data :: "frame \<Rightarrow> real list \<Rightarrow> real \<Rightarrow> json" where
  "model_data X coef0 intercept0 =
     (let weights = py_dict (zip (columns X) coef0);
          scaled_weights = py_dict (map (\<lambda>(k, v). (k, v * 100)) weights);
          scaled_intercept = intercept0 * 100
      in JObj [(''weights'', jnums scaled_weights),
               (''intercept'', JNum scaled_intercept),
               (''threshold'', JNum 0.5)])"

definition metrics :: "string \<Rightarrow> results \<Rightarrow> json" where
  "metrics now res =
     JObj [(''auc_roc'', JNum (auc_roc res)),
           (''cv_mean'', JNum (np_mean (cv_scores res))),
           (''cv_std'', JNum (np_std (cv_scores res))),
           (''precision_at_90_recall'', JNum (precision_at_90_recall res)),
           (''training_date'', JStr now),
           (''feature_importance'',
              jnums (py_dict (map (\<lambda>(k, v). (k, v)) (feature_importance res))))]"

definition export_model :: "string \<Rightarrow> results \<Rightarrow> frame \<Rightarrow> string \<Rightarrow> unit io" where
  "export_model now res X output_dir =
     bind_io (emit (Mkdir output_dir)) (\<lambda>_.
     bind_io (lib_call (first (est_coef (model res)))) (\<lambda>coef0.
     bind_io (lib_call (first (est_intercept (model res)))) (\<lambda>intercept0.
     bind_io (emit (WriteFile output_dir ''model_weights.json'' (model_data X coef0 intercept0))) (\<lambda>_.
     bind_io (emit (Print (WeightsSaved output_dir ''model_weights.json''))) (\<lambda>_.
     bind_io (emit (WriteFile output_dir ''model_metrics.json'' (metrics now res))) (\<lambda>_.
     emit (Print (MetricsSaved output_dir ''model_metrics.json''))))))))"

subsection \<open>\<^verbatim>\<open>main\<close>\<close>

text \<open>The parsed command line: \<^verbatim>\<open>--data\<close>, \<^verbatim>\<open>--output\<close>, \<^verbatim>\<open>--test-size\<close>.\<close>

record args =
  data_path :: string
  output_path :: string
  test_size :: real

definition quality_gate :: "results \<Rightarrow> unit io" where
  "quality_gate res =
     (if auc_roc res < 0.75 then
        bind_io (emit (Print WarnLowAUC)) (\<lambda>_. emit (Print ConsiderMoreData))
      else if auc_roc res \<ge> 0.85 then emit (Print MeetsRequirements)
      else return_io ())"

definition main_body :: "'a world \<Rightarrow> 'a \<Rightarrow> string \<Rightarrow> args \<Rightarrow> unit io" where
  "main_body W amb now a =
     bind_io (load_data W (data_path a)) (\<lambda>(X, y).
     bind_io (train_model W amb X y (test_size a)) (\<lambda>res.
     bind_io (quality_gate res) (\<lambda>_.
     bind_io (export_model now res X (output_path a)) (\<lambda>_.
     bind_io (emit (Print TrainingComplete)) (\<lambda>_.
     emit (Print (IntegrationHints (output_path a))))))))"

text \<open>The \<^verbatim>\<open>try\<close> block of \<^verbatim>\<open>main\<close>: the effects of the run and the exit status of the
  process (\<^verbatim>\<open>sys.exit(1)\<close> in the handler, 0 otherwise).\<close>

definition main :: "'a world \<Rightarrow> 'a \<Rightarrow> string \<Rightarrow> args \<Rightarrow> effect list \<times> nat" where
  "main W amb now a =
     (case main_body W amb now a of
        (t, Inl e) \<Rightarrow> (t @ [Print (ErrorMsg e)], 1)
      | (t, Inr u) \<Rightarrow> (t, 0))"

text \<open>The files a run wrote and the lines it printed, in order.\<close>

fun written :: "effect list \<Rightarrow> (string \<times> string \<times> json) list" where
  "written [] = []"
| "written (WriteFile d f j # es) = (d, f, j) # written es"
| "written (e # es) = written es"

fun printed :: "effect list \<Rightarrow> msg list" where
  "printed [] = []"
| "printed (Print m # es) = m # printed es"
| "printed (e # es) = printed es"

text \<open>The weights documents among the files written, and a written file without the
  key \<^verbatim>\<open>training_date\<close>.\<close>

definition weights_written :: "effect list \<Rightarrow> json list" where
  "weights_written t = map (\<lambda>(d, f, j). j) (filter (\<lambda>(d, f, j). f = ''model_weights.json'') (written t))"

fun without_training_date :: "string \<times> string \<times> json \<Rightarrow> string \<times> string \<times> json" where
  "without_training_date (d, f, JObj kvs) = (d, f, JObj (AList.delete ''training_date'' kvs))"
| "without_training_date (d, f, j) = (d, f, j)"

subsection \<open>What the script needs of the libraries\<close>

text \<open>The shapes scikit-learn documents: \<^verbatim>\<open>train_test_split\<close> selects rows and keeps
  the columns; \<^verbatim>\<open>coef_\<close> has at least one row, every row with one coefficient per
  feature column of the training frame; \<^verbatim>\<open>intercept_\<close> is not empty.\<close>

definition sklearn_shapes :: "'a world \<Rightarrow> bool" where
  "sklearn_shapes W \<longleftrightarrow>
     (\<forall>amb X y ts rs st X_train X_test' y_train y_test'.
        train_test_split W amb X y ts rs st = Inr (X_train, X_test', y_train, y_test')
        \<longrightarrow> columns X_train = columns X \<and> columns X_test' = columns X)
     \<and> (\<forall>amb p X y c i.
        fit W amb p X y = Inr (c, i)
        \<longrightarrow> c \<noteq> [] \<and> (\<forall>row \<in> set c. length row = length (columns X)) \<and> i \<noteq> [])"

text \<open>The curve \<^verbatim>\<open>precision_recall_curve\<close> documents: one point per threshold and
  a last point without one, thresholds increasing, recall decreasing.\<close>

definition curve_ok :: "real list \<Rightarrow> real list \<Rightarrow> real list \<Rightarrow> bool" where
  "curve_ok precision recall thresholds \<longleftrightarrow>
     length precision = length thresholds + 1
     \<and> length recall = length thresholds + 1
     \<and> sorted_wrt (<) thresholds
     \<and> sorted_wrt (\<ge>) recall"

text \<open>Reproducibility as scikit-learn documents it: a call that is given an integer
  seed returns the same result whatever the ambient state (cross-validation with an
  integer \<^verbatim>\<open>cv\<close> does not shuffle, and draws only through the estimator's seed).\<close>

definition seeded :: "'a world \<Rightarrow> bool" where
  "seeded W \<longleftrightarrow>
     (\<forall>a a' X y ts s st.
        train_test_split W a X y ts (Some s) st = train_test_split W a' X y ts (Some s) st)
     \<and> (\<forall>a a' p X y.
        random_state p \<noteq> None \<longrightarrow> fit W a p X y = fit W a' p X y)
     \<and> (\<forall>a a' m X y cv sc.
        random_state (params m) \<noteq> None
        \<longrightarrow> cross_val_score W a m X y cv sc = cross_val_score W a' m X y cv sc)"

text \<open>Stratification as scikit-learn implements it: in a part of a split stratified by
  \<open>labels\<close>, the number of rows of every class is less than one row away from that
  class's share of the part.\<close>

definition proportional :: "real list \<Rightarrow> real list \<Rightarrow> bool" where
  "proportional labels part \<longleftrightarrow>
     (\<forall>c. \<bar>int (count_list part c) * int (length labels)
            - int (count_list labels c) * int (length part)\<bar> < int (length labels))"

definition stratified :: "'a world \<Rightarrow> bool" where
  "stratified W \<longleftrightarrow>
     (\<forall>a X y ts rs X_train X_test' y_train y_test'.
        train_test_split W a X y ts rs (Some y) = Inr (X_train, X_test', y_train, y_test')
        \<longrightarrow> proportional y y_train \<and> proportional y y_test')"

subsection \<open>A small world to run the script in\<close>

definition toy_frame :: frame where
  "toy_frame = map (\<lambda>c. (c, [1, 0, 1, 0])) required_cols"

definition toy_frame_extra :: frame where
  "toy_frame_extra = (''ticker_id'', [5, 6, 7, 8]) # toy_frame @ [(''notes'', [0, 0, 0, 9])]"

definition toy_frame_broken :: frame where
  "toy_frame_broken = filter (\<lambda>(c, xs). c \<noteq> ''audited'' \<and> c \<noteq> ''is_rug_pull'') toy_frame"

definition toy_world :: "nat world" where
  "toy_world =
     \<lparr>read_csv = (\<lambda>p. if p = ''tokens.csv'' then Inr toy_frame
                      else if p = ''tokens_extra.csv'' then Inr toy_frame_extra
                      else if p = ''broken.csv'' then Inr toy_frame_broken
                      else Inl (Raised ''FileNotFoundError'')),
      train_test_split = (\<lambda>amb X y ts rs st.
                      if y = [] then Inl (Raised ''ValueError'') else Inr (X, X, y, y)),
      fit = (\<lambda>amb p X y. Inr ([map (\<lambda>c. 1 / 4) X], [- 1])),
      predict = (\<lambda>m X. Inr [1, 0, 1, 1]),
      predict_proba_1 = (\<lambda>m X. Inr [4 / 5, 1 / 5, 1 / 2, 1 / 2]),
      roc_auc_score = (\<lambda>y p. Inr (7 / 10)),
      cross_val_score = (\<lambda>amb m X y cv sc. Inr (replicate cv (7 / 10))),
      precision_recall_curve = (\<lambda>y p. Inr ([1 / 2, 2 / 3, 1, 1], [1, 1, 1 / 2, 0], [1 / 5, 1 / 2, 4 / 5])),
      classification_report = (\<lambda>y p names. Inr ''report''),
      confusion_matrix = (\<lambda>y p. Inr [[1, 1], [0, 2]])\<rparr>"

definition toy_args :: args where
  "toy_args = \<lparr>data_path = ''tokens.csv'', output_path = ''model_output'', test_size = 1 / 5\<rparr>"

definition toy_X :: frame where
  "toy_X = map (\<lambda>c. (c, [1, 0, 1, 0])) (butlast required_cols)"

definition toy_model :: estimator where
  "toy_model = \<lparr>params = lr_args, est_coef = [map (\<lambda>c. 1 / 4) (butlast required_cols)], est_intercept = [- 1]\<rparr>"

definition toy_results :: results where
  "toy_results =
     \<lparr>model = toy_model, auc_roc = 7 / 10, cv_scores = replicate 5 (7 / 10),
      precision_at_90_recall = 1 / 2, X_test = toy_X, y_test = [1, 0, 1, 0],
      y_pred_proba = [4 / 5, 1 / 5, 1 / 2, 1 / 2],
      feature_importance = map (\<lambda>c. (c, 1 / 4)) (butlast required_cols)\<rparr>"

section \<open>The scoring engine\<close>

text \<open>
  The runtime that loads the exported weights document (\<^verbatim>\<open>src-tauri/src/ai.rs\<close>, which
  the script's closing lines name) is not among the source files. Its definitions below
  follow the specification's sections 3, 4.2 and 4.3.
\<close>

text \<open>Modelled from the spec: the Feature Schema, the thirteen named features (the engine's
  source is missing).\<close>

definition feature_schema :: "string list" where
  "feature_schema =
     [''gini_coefficient'', ''top_10_percentage'', ''total_holders'',
      ''liquidity_usd'', ''has_mint_authority'', ''has_freeze_authority'',
      ''verified'', ''audited'', ''community_trust_score'', ''sentiment_score'',
      ''token_age_days'', ''volume_24h'', ''price_volatility'']"

text \<open>Modelled from the spec: a number of a parsed weights document, which may be
  non-finite (the engine's parser is missing).\<close>

datatype f64 = Finite real | PosInf | NegInf | NaN

fun is_finite :: "f64 \<Rightarrow> bool" where
  "is_finite (Finite r) = True"
| "is_finite v = False"

fun real_of :: "f64 \<Rightarrow> real" where
  "real_of (Finite r) = r"
| "real_of v = 0"

text \<open>Modelled from the spec: the weights document as parsed, and the artifact the engine
  holds once the document is validated (the engine's types are missing).\<close>

record weights_document =
  doc_weights :: "(string \<times> f64) list"
  doc_intercept :: f64
  doc_threshold :: f64

record artifact =
  weights :: "(string \<times> real) list"
  intercept :: real
  threshold :: real

datatype artifact_check = KeySetMismatch | NonFiniteValue | ThresholdOutOfRange

datatype engine_error =
    ArtifactError artifact_check
  | FeatureError "string list"
  | NoPriorVersionError

text \<open>Modelled from the spec: validation on load (section 4.2; the engine's loader is
  missing). The three checks, in the order the specification lists them.\<close>

definition keys_match :: "weights_document \<Rightarrow> bool" where
  "keys_match d \<longleftrightarrow> set (map fst (doc_weights d)) = set feature_schema"

definition all_finite :: "weights_document \<Rightarrow> bool" where
  "all_finite d \<longleftrightarrow>
     list_all is_finite (map snd (doc_weights d)) \<and> is_finite (doc_intercept d)
     \<and> is_finite (doc_threshold d)"

fun in_unit_interval :: "f64 \<Rightarrow> bool" where
  "in_unit_interval (Finite r) = (0 \<le> r \<and> r \<le> 1)"
| "in_unit_interval v = False"

definition threshold_in_range :: "weights_document \<Rightarrow> bool" where
  "threshold_in_range d \<longleftrightarrow> in_unit_interval (doc_threshold d)"

definition validate :: "weights_document \<Rightarrow> artifact_check + artifact" where
  "validate d =
     (if \<not> keys_match d then Inl KeySetMismatch
      else if \<not> all_finite d then Inl NonFiniteValue
      else if \<not> threshold_in_range d then Inl ThresholdOutOfRange
      else Inr \<lparr>weights = map (\<lambda>(k, v). (k, real_of v)) (doc_weights d),
                intercept = real_of (doc_intercept d),
                threshold = real_of (doc_threshold d)\<rparr>)"

text \<open>Modelled from the spec: \<^verbatim>\<open>score\<close> (section 4.3; the engine's scoring function is
  missing): the features the artifact weighs must be present; the raw score is squashed by
  the logistic function and compared with the threshold.\<close>

datatype risk_class = Low | High

definition score :: "artifact \<Rightarrow> (string \<times> real) list \<Rightarrow> engine_error + real \<times> risk_class" where
  "score a features =
     (let missing = filter (\<lambda>f. map_of features f = None) (map fst (weights a)) in
      if missing \<noteq> [] then Inl (FeatureError missing)
      else
        let raw = intercept a + sum_list (map (\<lambda>(f, w). w * the (map_of features f)) (weights a));
            p = 1 / (1 + exp (- raw))
        in Inr (p, if p > threshold a then High else Low))"

text \<open>Modelled from the spec: the engine's state (section 3), \<^verbatim>\<open>reload\<close> and
  \<^verbatim>\<open>rollback\<close> (section 4.3); the engine's source is missing. The state is the active
  artifact and the rollback slot; a rollback empties the slot.\<close>

record engine =
  active :: artifact
  previous :: "artifact option"

definition startup :: "artifact \<Rightarrow> engine" where
  "startup bootstrap = \<lparr>active = bootstrap, previous = None\<rparr>"

definition engine_score :: "engine \<Rightarrow> (string \<times> real) list \<Rightarrow> engine_error + real \<times> risk_class" where
  "engine_score st features = score (active st) features"

definition reload :: "engine \<Rightarrow> weights_document \<Rightarrow> engine \<times> (engine_error + unit)" where
  "reload st d =
     (case validate d of
        Inl c \<Rightarrow> (st, Inl (ArtifactError c))
      | Inr a \<Rightarrow> (\<lparr>active = a, previous = Some (active st)\<rparr>, Inr ()))"

definition rollback :: "engine \<Rightarrow> engine \<times> (engine_error + unit)" where
  "rollback st =
     (case previous st of
        None \<Rightarrow> (st, Inl NoPriorVersionError)
      | Some a \<Rightarrow> (\<lparr>active = a, previous = None\<rparr>, Inr ()))"

text \<open>Two documents and two artifacts to run the engine on.\<close>

definition toy_document :: weights_document where
  "toy_document =
     \<lparr>doc_weights = map (\<lambda>f. (f, Finite 25)) feature_schema,
      doc_intercept = Finite (- 100), doc_threshold = Finite (1 / 2)\<rparr>"

definition toy_document_short :: weights_document where
  "toy_document_short =
     \<lparr>doc_weights = map (\<lambda>f. (f, Finite 25)) (butlast feature_schema),
      doc_intercept = Finite (- 100), doc_threshold = Finite (1 / 2)\<rparr>"

definition toy_artifact :: artifact where
  "toy_artifact =
     \<lparr>weights = map (\<lambda>f. (f, 1)) feature_schema, intercept = 0, threshold = 1 / 2\<rparr>"

definition toy_artifact_new :: artifact where
  "toy_artifact_new =
     \<lparr>weights = map (\<lambda>f. (f, 25)) feature_schema, intercept = - 100, threshold = 1 / 2\<rparr>"

section \<open>Properties\<close>

subsection \<open>Sequencing of effects\<close>

lemma written_append: "written (xs @ ys) = written xs @ written ys"
  by (induction xs rule: written.induct) simp_all

lemma printed_append: "printed (xs @ ys) = printed xs @ printed ys"
  by (induction xs rule: printed.induct) simp_all

lemma bind_lib_call: "bind_io (lib_call r) f = (case r of Inl e \<Rightarrow> ([], Inl e) | Inr x \<Rightarrow> f x)"
  by (simp add: bind_io_def lib_call_def split: prod.splits sum.splits)

lemma snd_bind:
  "snd (bind_io m f) = (case snd m of Inl e \<Rightarrow> Inl e | Inr x \<Rightarrow> snd (f x))"
  by (simp add: bind_io_def split: prod.splits sum.splits)

lemma fst_bind:
  "fst (bind_io m f) = fst m @ (case snd m of Inl e \<Rightarrow> [] | Inr x \<Rightarrow> fst (f x))"
  by (simp add: bind_io_def split: prod.splits sum.splits)

lemmas io_defs = bind_io_def emit_def lib_call_def raise_io_def return_io_def

subsection \<open>Loading\<close>

lemma getitems_present:
  "set cs \<subseteq> set (columns df) \<Longrightarrow> getitems df cs = Inr (map (\<lambda>c. (c, the (map_of df c))) cs)"
proof (induction cs)
  case Nil
  then show ?case by simp
next
  case (Cons c cs)
  then have "c \<in> fst ` set df" by (simp add: columns_def)
  then obtain xs where "map_of df c = Some xs"
    by (metis domD dom_map_of_conv_image_fst)
  with Cons show ?case by (simp add: getitem_def)
qed

lemma butlast_required: "set (butlast required_cols) \<subseteq> set required_cols"
  by (simp add: required_cols_def)

lemma label_required: "''is_rug_pull'' \<in> set required_cols"
  by (simp add: required_cols_def)

lemma load_data_missing:
  assumes "read_csv W p = Inr df" and "\<not> set required_cols \<subseteq> set (columns df)"
  shows "load_data W p =
           ([Print (LoadingData p)], Inl (MissingColumns (set required_cols - set (columns df))))"
  using assms by (auto simp add: load_data_def io_defs Let_def)

lemma load_data_present:
  assumes "read_csv W p = Inr df" and "set required_cols \<subseteq> set (columns df)"
  shows "load_data W p =
           ([Print (LoadingData p),
             Print (Loaded (nrows df) (sum_list (labels_of df))
                      (real (length (labels_of df)) - sum_list (labels_of df)))],
            Inr (features_of df, labels_of df))"
proof -
  have X: "getitems df (butlast required_cols) = Inr (features_of df)"
    using assms(2) butlast_required by (simp add: getitems_present features_of_def subset_trans)
  have "''is_rug_pull'' \<in> fst ` set df"
    using assms(2) label_required by (auto simp add: columns_def)
  then obtain ys where "map_of df ''is_rug_pull'' = Some ys"
    by (metis domD dom_map_of_conv_image_fst)
  then have y: "getitem df ''is_rug_pull'' = Inr (labels_of df)"
    by (simp add: getitem_def labels_of_def)
  show ?thesis
    using assms by (simp add: load_data_def io_defs X y)
qed

lemma columns_features_of: "columns (features_of df) = butlast required_cols"
  by (simp add: columns_def features_of_def comp_def)

lemma snd_emit: "snd (emit e) = Inr ()" by (simp add: emit_def)
lemma snd_lib_call: "snd (lib_call r) = r" by (simp add: lib_call_def)
lemma snd_return: "snd (return_io x) = Inr x" by (simp add: return_io_def)

subsection \<open>Training\<close>

text \<open>What a successful call of \<open>train_model\<close> went through.\<close>

lemma train_model_InrD:
  assumes "snd (train_model W amb X y ts) = Inr res"
  shows "\<exists>X_train X_test' y_train y_test' proba precision recall thresholds coef0.
           split_call W amb X y ts = Inr (X_train, X_test', y_train, y_test')
         \<and> fit_call W amb X_train y_train = Inr (model res)
         \<and> predict_proba_1 W (model res) X_test' = Inr proba
         \<and> roc_auc_score W y_test' proba = Inr (auc_roc res)
         \<and> precision_recall_curve W y_test' proba = Inr (precision, recall, thresholds)
         \<and> precision_at_90 precision recall = Inr (precision_at_90_recall res)
         \<and> first (est_coef (model res)) = Inr coef0
         \<and> feature_importance res = py_dict (zip (columns X) (map abs coef0))
         \<and> X_test res = X_test' \<and> y_test res = y_test'"
  using assms unfolding train_model_def
  by (auto simp add: snd_bind snd_emit snd_lib_call snd_return Let_def split: sum.splits prod.splits)

lemma fst_emit: "fst (emit e) = [e]" by (simp add: emit_def)
lemma fst_lib_call: "fst (lib_call r) = []" by (simp add: lib_call_def)
lemma fst_return: "fst (return_io x) = []" by (simp add: return_io_def)

lemmas io_fst = fst_bind fst_emit fst_lib_call fst_return
lemmas io_snd = snd_bind snd_emit snd_lib_call snd_return

subsection \<open>The effects of each stage\<close>

lemma written_load_data: "written (fst (load_data W p)) = []"
  by (simp add: load_data_def io_fst io_snd written_append Let_def raise_io_def
      split: sum.splits prod.splits)

lemma printed_load_data:
  "WarnLowAUC \<notin> set (printed (fst (load_data W p)))"
  "MeetsRequirements \<notin> set (printed (fst (load_data W p)))"
  by (simp_all add: load_data_def io_fst io_snd printed_append Let_def raise_io_def
      split: sum.splits prod.splits)

lemma written_train_model: "written (fst (train_model W amb X y ts)) = []"
  by (simp add: train_model_def io_fst io_snd written_append Let_def
      split: sum.splits prod.splits)

lemma printed_train_model:
  "WarnLowAUC \<notin> set (printed (fst (train_model W amb X y ts)))"
  "MeetsRequirements \<notin> set (printed (fst (train_model W amb X y ts)))"
  by (simp_all add: train_model_def io_fst io_snd printed_append Let_def
      split: sum.splits prod.splits)

lemma quality_gate_eq:
  "quality_gate res =
     ((if auc_roc res < 0.75 then [Print WarnLowAUC, Print ConsiderMoreData]
       else if auc_roc res \<ge> 0.85 then [Print MeetsRequirements] else []), Inr ())"
  by (simp add: quality_gate_def io_defs)

lemma export_model_eq:
  "export_model now res X out =
     (case first (est_coef (model res)) of
        Inl e \<Rightarrow> ([Mkdir out], Inl e)
      | Inr coef0 \<Rightarrow>
          (case first (est_intercept (model res)) of
             Inl e \<Rightarrow> ([Mkdir out], Inl e)
           | Inr b \<Rightarrow>
               ([Mkdir out,
                 WriteFile out ''model_weights.json'' (model_data X coef0 b),
                 Print (WeightsSaved out ''model_weights.json''),
                 WriteFile out ''model_metrics.json'' (metrics now res),
                 Print (MetricsSaved out ''model_metrics.json'')], Inr ())))"
  by (simp add: export_model_def io_defs split: sum.splits)

lemma main_body_eq:
  "main_body W amb now a =
     (case load_data W (data_path a) of
        (t1, Inl e) \<Rightarrow> (t1, Inl e)
      | (t1, Inr (X, y)) \<Rightarrow>
          (case train_model W amb X y (test_size a) of
             (t2, Inl e) \<Rightarrow> (t1 @ t2, Inl e)
           | (t2, Inr res) \<Rightarrow>
               (case export_model now res X (output_path a) of
                  (t3, Inl e) \<Rightarrow> (t1 @ t2 @ fst (quality_gate res) @ t3, Inl e)
                | (t3, Inr u) \<Rightarrow>
                    (t1 @ t2 @ fst (quality_gate res) @ t3
                       @ [Print TrainingComplete, Print (IntegrationHints (output_path a))],
                     Inr ()))))"
  by (simp add: main_body_def bind_io_def emit_def quality_gate_eq split: sum.splits prod.splits)

subsection \<open>Dictionaries with distinct keys\<close>

lemma update_fresh: "k \<notin> fst ` set al \<Longrightarrow> AList.update k v al = al @ [(k, v)]"
  by (induction al) auto

lemma fold_update_distinct:
  "distinct (map fst (acc @ kvs)) \<Longrightarrow> fold (\<lambda>(k, v). AList.update k v) kvs acc = acc @ kvs"
proof (induction kvs arbitrary: acc)
  case Nil
  then show ?case by simp
next
  case (Cons kv kvs)
  obtain k v where kv: "kv = (k, v)" by (cases kv)
  from Cons.prems have fresh: "k \<notin> fst ` set acc" by (auto simp add: kv)
  from Cons.prems have "distinct (map fst ((acc @ [(k, v)]) @ kvs))" by (simp add: kv)
  then have "fold (\<lambda>(k, v). AList.update k v) kvs (acc @ [(k, v)]) = (acc @ [(k, v)]) @ kvs"
    by (rule Cons.IH)
  then show ?case by (simp add: kv update_fresh [OF fresh])
qed

lemma py_dict_distinct: "distinct (map fst kvs) \<Longrightarrow> py_dict kvs = kvs"
  using fold_update_distinct [of "[]" kvs] by (simp add: py_dict_def)

lemma map_fst_zip_take: "map fst (zip ks vs) = take (length vs) ks"
  by (induction ks arbitrary: vs) (auto simp add: zip_Cons1 split: list.splits)

lemma model_data_distinct:
  assumes "distinct (columns X)"
  shows "model_data X coef0 b =
           JObj [(''weights'', jnums (zip (columns X) (map (\<lambda>c. c * 100) coef0))),
                 (''intercept'', JNum (b * 100)),
                 (''threshold'', JNum (1 / 2))]"
proof -
  have d1: "distinct (map fst (zip (columns X) coef0))"
    using assms by (simp add: map_fst_zip_take)
  have m: "map (\<lambda>(k, v). (k, v * 100)) (zip (columns X) coef0)
             = zip (columns X) (map (\<lambda>c. c * 100) coef0)"
    by (simp add: zip_map2 case_prod_unfold)
  have d2: "distinct (map fst (zip (columns X) (map (\<lambda>c. c * 100) coef0)))"
    using assms by (simp add: map_fst_zip_take)
  show ?thesis
    by (simp add: model_data_def py_dict_distinct [OF d1] m py_dict_distinct [OF d2])
qed

lemma butlast_required_schema: "butlast required_cols = feature_schema"
  by (simp add: required_cols_def feature_schema_def)

lemma distinct_schema: "distinct feature_schema"
  by (simp add: feature_schema_def)

lemma label_not_feature: "''is_rug_pull'' \<notin> set feature_schema"
  by (simp add: feature_schema_def)

subsection \<open>A run that trains\<close>

text \<open>A run whose loading and training succeed, in a world of the documented shapes.\<close>

lemma trained_shapes:
  assumes shapes: "sklearn_shapes W"
    and trained: "snd (train_model W amb X y ts) = Inr res"
  shows "\<exists>coef0 b. first (est_coef (model res)) = Inr coef0
           \<and> first (est_intercept (model res)) = Inr b
           \<and> length coef0 = length (columns X)"
proof -
  from train_model_InrD [OF trained] obtain X_train X_test' y_train y_test' where
    split: "split_call W amb X y ts = Inr (X_train, X_test', y_train, y_test')" and
    fitc: "fit_call W amb X_train y_train = Inr (model res)"
    by blast
  from fitc obtain c i where
    fit: "fit W amb lr_args X_train y_train = Inr (c, i)" and
    m: "model res = \<lparr>params = lr_args, est_coef = c, est_intercept = i\<rparr>"
    by (auto simp add: fit_call_def split: sum.splits)
  from shapes split have cols: "columns X_train = columns X"
    unfolding sklearn_shapes_def split_call_def by blast
  from shapes fit have c: "c \<noteq> []" "\<forall>row \<in> set c. length row = length (columns X_train)" "i \<noteq> []"
    unfolding sklearn_shapes_def by blast+
  then obtain r rs j js where "c = r # rs" "i = j # js"
    by (metis list.exhaust)
  with c cols m show ?thesis by (simp add: first_def)
qed

lemma main_trained:
  assumes load: "snd (load_data W (data_path a)) = Inr (X, y)"
    and trained: "snd (train_model W amb X y (test_size a)) = Inr res"
    and coef: "first (est_coef (model res)) = Inr coef0"
    and icpt: "first (est_intercept (model res)) = Inr b"
  shows "main W amb now a =
           (fst (load_data W (data_path a)) @ fst (train_model W amb X y (test_size a))
              @ fst (quality_gate res)
              @ [Mkdir (output_path a),
                 WriteFile (output_path a) ''model_weights.json'' (model_data X coef0 b),
                 Print (WeightsSaved (output_path a) ''model_weights.json''),
                 WriteFile (output_path a) ''model_metrics.json'' (metrics now res),
                 Print (MetricsSaved (output_path a) ''model_metrics.json''),
                 Print TrainingComplete, Print (IntegrationHints (output_path a))], 0)"
proof -
  obtain t1 where l: "load_data W (data_path a) = (t1, Inr (X, y))"
    using load by (cases "load_data W (data_path a)") simp
  obtain t2 where t: "train_model W amb X y (test_size a) = (t2, Inr res)"
    using trained by (cases "train_model W amb X y (test_size a)") simp
  show ?thesis
    by (simp add: main_def main_body_eq l t export_model_eq coef icpt)
qed

lemma main_trained_written:
  assumes load: "snd (load_data W (data_path a)) = Inr (X, y)"
    and trained: "snd (train_model W amb X y (test_size a)) = Inr res"
    and coef: "first (est_coef (model res)) = Inr coef0"
    and icpt: "first (est_intercept (model res)) = Inr b"
  shows "written (fst (main W amb now a)) =
           [(output_path a, ''model_weights.json'', model_data X coef0 b),
            (output_path a, ''model_metrics.json'', metrics now res)]"
  by (simp add: main_trained [OF assms] written_append written_load_data written_train_model
      quality_gate_eq)

subsection \<open>The small world\<close>

lemma toy_columns: "set required_cols \<subseteq> set (columns toy_frame)"
  by (simp add: toy_frame_def columns_def comp_def)

lemma toy_features: "features_of toy_frame = toy_X"
  by (simp add: features_of_def toy_X_def toy_frame_def required_cols_def)

lemma toy_labels: "labels_of toy_frame = [1, 0, 1, 0]"
  by (simp add: labels_of_def toy_frame_def required_cols_def)

lemma toy_read: "read_csv toy_world (data_path toy_args) = Inr toy_frame"
  by (simp add: toy_world_def toy_args_def)

lemma toy_load: "snd (load_data toy_world (data_path toy_args)) = Inr (toy_X, [1, 0, 1, 0])"
  by (simp add: load_data_present [OF toy_read toy_columns] toy_features toy_labels)

lemma toy_p90: "precision_at_90 [1 / 2, 2 / 3, 1, 1] [1, 1, 1 / 2, 0] = Inr (1 / 2)"
  by (simp add: precision_at_90_def np_argmax_def)

lemma py_dict_zip: "distinct ks \<Longrightarrow> py_dict (zip ks vs) = zip ks vs"
  by (simp add: py_dict_distinct map_fst_zip_take)

lemma toy_X_columns: "columns toy_X = butlast required_cols"
  by (simp add: toy_X_def columns_def comp_def)

lemma distinct_features: "distinct (butlast required_cols)"
  by (simp add: required_cols_def)

lemma toy_trained:
  "snd (train_model toy_world amb toy_X [1, 0, 1, 0] (test_size toy_args)) = Inr toy_results"
  by (simp add: train_model_def io_snd split_call_def fit_call_def toy_world_def toy_p90
      first_def toy_results_def toy_model_def Let_def toy_X_columns py_dict_zip distinct_features)
    (simp add: toy_X_def required_cols_def)

lemma toy_shapes: "sklearn_shapes toy_world"
  by (auto simp add: sklearn_shapes_def toy_world_def columns_def split: if_splits)

subsection \<open>The column check\<close>

text \<open>
  C4: a dataset that lacks a required column (one of the thirteen features or the label)
  aborts the run. \<open>load_data\<close> raises the error whose message names exactly the
  required columns that are missing; the handler of \<open>main\<close> prints it and the process
  exits with status 1. The whole run is the loading line and the error line: no directory
  is created and no file is written, and the right-hand side names no library call, so
  nothing is split or fitted.
\<close>

theorem missing_columns_abort:
  assumes "read_csv W (data_path a) = Inr df"
    and "\<not> set required_cols \<subseteq> set (columns df)"
  shows "main W amb now a =
           ([Print (LoadingData (data_path a)),
             Print (ErrorMsg (MissingColumns (set required_cols - set (columns df))))], 1)
         \<and> written (fst (main W amb now a)) = []
         \<and> set required_cols - set (columns df) \<noteq> {}"
  using assms
  by (auto simp add: main_def main_body_eq load_data_missing)

lemma toy_broken_columns:
  "set required_cols - set (columns toy_frame_broken) = {''audited'', ''is_rug_pull''}"
  by (auto simp add: toy_frame_broken_def toy_frame_def required_cols_def columns_def)

theorem missing_columns_abort_witness:
  "read_csv toy_world ''broken.csv'' = Inr toy_frame_broken
   \<and> \<not> set required_cols \<subseteq> set (columns toy_frame_broken)
   \<and> main toy_world 0 ''2024-05-01T12:00:00''
        \<lparr>data_path = ''broken.csv'', output_path = ''model_output'', test_size = 1 / 5\<rparr>
      = ([Print (LoadingData ''broken.csv''),
          Print (ErrorMsg (MissingColumns {''audited'', ''is_rug_pull''}))], 1)"
proof -
  let ?a = "\<lparr>data_path = ''broken.csv'', output_path = ''model_output'', test_size = 1 / 5\<rparr>"
  have r: "read_csv toy_world (data_path ?a) = Inr toy_frame_broken"
    by (simp add: toy_world_def)
  have m: "\<not> set required_cols \<subseteq> set (columns toy_frame_broken)"
    using toy_broken_columns by auto
  from missing_columns_abort [OF r m, of 0 "''2024-05-01T12:00:00''"] r m
  show ?thesis by (simp add: toy_broken_columns)
qed

subsection \<open>The quality gate\<close>

text \<open>
  C3: the quality gate never blocks the export. In every run whose loading and training
  succeed, the process exits with status 0 and the files written are the weights document
  and the metrics document, whatever the AUC-ROC. The warning is printed exactly when the
  AUC-ROC is below 0.75 and the confirmation exactly when it is at least 0.85; between the
  two, neither is printed.
\<close>

theorem quality_gate_advisory:
  assumes shapes: "sklearn_shapes W"
    and load: "snd (load_data W (data_path a)) = Inr (X, y)"
    and trained: "snd (train_model W amb X y (test_size a)) = Inr res"
  shows "snd (main W amb now a) = 0
       \<and> map (\<lambda>(d, f, j). (d, f)) (written (fst (main W amb now a)))
           = [(output_path a, ''model_weights.json''), (output_path a, ''model_metrics.json'')]
       \<and> (WarnLowAUC \<in> set (printed (fst (main W amb now a))) \<longleftrightarrow> auc_roc res < 0.75)
       \<and> (MeetsRequirements \<in> set (printed (fst (main W amb now a))) \<longleftrightarrow> auc_roc res \<ge> 0.85)"
proof -
  from trained_shapes [OF shapes trained] obtain coef0 b where
    c: "first (est_coef (model res)) = Inr coef0" and i: "first (est_intercept (model res)) = Inr b"
    by blast
  note run = main_trained [OF load trained c i, of now]
  have "snd (main W amb now a) = 0" by (simp add: run)
  moreover have "map (\<lambda>(d, f, j). (d, f)) (written (fst (main W amb now a)))
           = [(output_path a, ''model_weights.json''), (output_path a, ''model_metrics.json'')]"
    by (simp add: main_trained_written [OF load trained c i])
  moreover have "WarnLowAUC \<in> set (printed (fst (main W amb now a))) \<longleftrightarrow> auc_roc res < 0.75"
    by (simp add: run printed_append printed_load_data printed_train_model quality_gate_eq)
  moreover have "MeetsRequirements \<in> set (printed (fst (main W amb now a))) \<longleftrightarrow> auc_roc res \<ge> 0.85"
    by (simp add: run printed_append printed_load_data printed_train_model quality_gate_eq)
  ultimately show ?thesis by blast
qed

theorem quality_gate_advisory_witness:
  "sklearn_shapes toy_world
   \<and> snd (load_data toy_world (data_path toy_args)) = Inr (toy_X, [1, 0, 1, 0])
   \<and> snd (train_model toy_world 0 toy_X [1, 0, 1, 0] (test_size toy_args)) = Inr toy_results
   \<and> auc_roc toy_results < 0.75
   \<and> snd (main toy_world 0 ''2024-05-01T12:00:00'' toy_args) = 0
   \<and> map (\<lambda>(d, f, j). (d, f)) (written (fst (main toy_world 0 ''2024-05-01T12:00:00'' toy_args)))
       = [(''model_output'', ''model_weights.json''), (''model_output'', ''model_metrics.json'')]
   \<and> WarnLowAUC \<in> set (printed (fst (main toy_world 0 ''2024-05-01T12:00:00'' toy_args)))
   \<and> MeetsRequirements \<notin> set (printed (fst (main toy_world 0 ''2024-05-01T12:00:00'' toy_args)))"
proof -
  have auc: "auc_roc toy_results < 0.75" "\<not> auc_roc toy_results \<ge> 0.85"
    by (simp_all add: toy_results_def)
  have out: "output_path toy_args = ''model_output''" by (simp add: toy_args_def)
  from quality_gate_advisory [OF toy_shapes toy_load toy_trained [of 0], of "''2024-05-01T12:00:00''"]
    toy_shapes toy_load toy_trained [of 0] auc out
  show ?thesis by simp
qed

subsection \<open>The weights document\<close>

lemma load_data_present_snd:
  assumes "read_csv W p = Inr df" and "set required_cols \<subseteq> set (columns df)"
  shows "snd (load_data W p) = Inr (features_of df, labels_of df)"
  by (simp add: load_data_present [OF assms])

lemma columns_features: "columns (features_of df) = feature_schema"
  by (simp add: columns_features_of butlast_required_schema)

text \<open>
  C1: for a dataset that has every required column and on which training succeeds, in a
  world where scikit-learn returns the shapes it documents, the run writes a weights
  document whose \<open>weights\<close> object has exactly the thirteen features of the schema as its
  keys, each once and in the schema's order; the label column is not among them.
\<close>

theorem weights_keys_are_feature_schema:
  assumes shapes: "sklearn_shapes W"
    and read: "read_csv W (data_path a) = Inr df"
    and cols: "set required_cols \<subseteq> set (columns df)"
    and trained: "snd (train_model W amb (features_of df) (labels_of df) (test_size a)) = Inr res"
  shows "\<exists>ws i t m.
           written (fst (main W amb now a))
             = [(output_path a, ''model_weights.json'',
                   JObj [(''weights'', JObj ws), (''intercept'', i), (''threshold'', t)]),
                (output_path a, ''model_metrics.json'', m)]
         \<and> map fst ws = feature_schema
         \<and> set (map fst ws)
             = {''gini_coefficient'', ''top_10_percentage'', ''total_holders'',
                ''liquidity_usd'', ''has_mint_authority'', ''has_freeze_authority'',
                ''verified'', ''audited'', ''community_trust_score'', ''sentiment_score'',
                ''token_age_days'', ''volume_24h'', ''price_volatility''}
         \<and> ''is_rug_pull'' \<notin> set (map fst ws)"
proof -
  let ?X = "features_of df"
  from trained_shapes [OF shapes trained] obtain coef0 b where
    c: "first (est_coef (model res)) = Inr coef0" and
    i: "first (est_intercept (model res)) = Inr b" and
    len: "length coef0 = length (columns ?X)"
    by blast
  note load = load_data_present_snd [OF read cols]
  have d: "distinct (columns ?X)"
    by (simp add: columns_features distinct_schema)
  let ?ws = "map (\<lambda>(k, v). (k, JNum v)) (zip (columns ?X) (map (\<lambda>c. c * 100) coef0))"
  have w: "written (fst (main W amb now a))
             = [(output_path a, ''model_weights.json'',
                   JObj [(''weights'', JObj ?ws), (''intercept'', JNum (b * 100)),
                         (''threshold'', JNum (1 / 2))]),
                (output_path a, ''model_metrics.json'', metrics now res)]"
    by (simp add: main_trained_written [OF load trained c i] model_data_distinct [OF d] jnums_def)
  have keys: "map fst ?ws = feature_schema"
    using len by (simp add: comp_def case_prod_unfold map_fst_zip_take columns_features)
  have "set feature_schema
          = {''gini_coefficient'', ''top_10_percentage'', ''total_holders'',
             ''liquidity_usd'', ''has_mint_authority'', ''has_freeze_authority'',
             ''verified'', ''audited'', ''community_trust_score'', ''sentiment_score'',
             ''token_age_days'', ''volume_24h'', ''price_volatility''}"
    by (simp add: feature_schema_def)
  then have k2: "set (map fst ?ws)
          = {''gini_coefficient'', ''top_10_percentage'', ''total_holders'',
             ''liquidity_usd'', ''has_mint_authority'', ''has_freeze_authority'',
             ''verified'', ''audited'', ''community_trust_score'', ''sentiment_score'',
             ''token_age_days'', ''volume_24h'', ''price_volatility''}"
    by (simp only: keys)
  have k3: "''is_rug_pull'' \<notin> set (map fst ?ws)"
    using label_not_feature by (simp only: keys not_False_eq_True)
  from w keys k2 k3 show ?thesis by blast
qed

theorem weights_keys_are_feature_schema_witness:
  "sklearn_shapes toy_world
   \<and> read_csv toy_world (data_path toy_args) = Inr toy_frame
   \<and> set required_cols \<subseteq> set (columns toy_frame)
   \<and> snd (train_model toy_world 0 (features_of toy_frame) (labels_of toy_frame)
             (test_size toy_args)) = Inr toy_results
   \<and> (\<exists>ws i t m.
         written (fst (main toy_world 0 ''2024-05-01T12:00:00'' toy_args))
           = [(output_path toy_args, ''model_weights.json'',
                 JObj [(''weights'', JObj ws), (''intercept'', i), (''threshold'', t)]),
              (output_path toy_args, ''model_metrics.json'', m)]
         \<and> map fst ws = feature_schema
         \<and> set (map fst ws)
             = {''gini_coefficient'', ''top_10_percentage'', ''total_holders'',
                ''liquidity_usd'', ''has_mint_authority'', ''has_freeze_authority'',
                ''verified'', ''audited'', ''community_trust_score'', ''sentiment_score'',
                ''token_age_days'', ''volume_24h'', ''price_volatility''}
         \<and> ''is_rug_pull'' \<notin> set (map fst ws))"
proof -
  have t: "snd (train_model toy_world 0 (features_of toy_frame) (labels_of toy_frame)
             (test_size toy_args)) = Inr toy_results"
    by (simp add: toy_features toy_labels toy_trained)
  note run = weights_keys_are_feature_schema [OF toy_shapes toy_read toy_columns t,
      of "''2024-05-01T12:00:00''"]
  from toy_shapes toy_read toy_columns t run show ?thesis
    by (intro conjI)
qed

text \<open>
  C2: in every run whose loading and training succeed, whatever the data and the metrics,
  the weights document pairs each feature with 100 times its coefficient in
  \<^verbatim>\<open>model.coef_[0]\<close>, its intercept is 100 times \<^verbatim>\<open>model.intercept_[0]\<close>, and its
  threshold is 0.5.
\<close>

theorem export_scales_by_100:
  assumes read: "read_csv W (data_path a) = Inr df"
    and cols: "set required_cols \<subseteq> set (columns df)"
    and trained: "snd (train_model W amb (features_of df) (labels_of df) (test_size a)) = Inr res"
    and coef: "first (est_coef (model res)) = Inr coef0"
    and icpt: "first (est_intercept (model res)) = Inr b"
  shows "weights_written (fst (main W amb now a))
           = [JObj [(''weights'', jnums (zip feature_schema (map (\<lambda>c. c * 100) coef0))),
                    (''intercept'', JNum (b * 100)),
                    (''threshold'', JNum 0.5)]]"
proof -
  note load = load_data_present_snd [OF read cols]
  have d: "distinct (columns (features_of df))"
    by (simp add: columns_features distinct_schema)
  show ?thesis
    by (simp add: weights_written_def main_trained_written [OF load trained coef icpt]
        model_data_distinct [OF d] columns_features)
qed

theorem export_scales_by_100_witness:
  "read_csv toy_world (data_path toy_args) = Inr toy_frame
   \<and> set required_cols \<subseteq> set (columns toy_frame)
   \<and> snd (train_model toy_world 0 (features_of toy_frame) (labels_of toy_frame)
             (test_size toy_args)) = Inr toy_results
   \<and> first (est_coef (model toy_results)) = Inr (map (\<lambda>c. 1 / 4) (butlast required_cols))
   \<and> first (est_intercept (model toy_results)) = Inr (- 1)
   \<and> weights_written (fst (main toy_world 0 ''2024-05-01T12:00:00'' toy_args))
       = [JObj [(''weights'', jnums (map (\<lambda>f. (f, 25)) feature_schema)),
                (''intercept'', JNum (- 100)),
                (''threshold'', JNum (1 / 2))]]"
proof -
  have t: "snd (train_model toy_world 0 (features_of toy_frame) (labels_of toy_frame)
             (test_size toy_args)) = Inr toy_results"
    by (simp add: toy_features toy_labels toy_trained)
  have c: "first (est_coef (model toy_results)) = Inr (map (\<lambda>c. 1 / 4) (butlast required_cols))"
    by (simp add: toy_results_def toy_model_def first_def)
  have i: "first (est_intercept (model toy_results)) = Inr (- 1)"
    by (simp add: toy_results_def toy_model_def first_def)
  have z: "zip feature_schema (map (\<lambda>c. c * 100) (map (\<lambda>c. 1 / 4 :: real) (butlast required_cols)))
             = map (\<lambda>f. (f, 25)) feature_schema"
    by (simp add: feature_schema_def required_cols_def)
  from export_scales_by_100 [OF toy_read toy_columns t c i, of "''2024-05-01T12:00:00''"]
    toy_read toy_columns t c i z
  show ?thesis by simp
qed

subsection \<open>Precision at 90% recall\<close>

text \<open>\<^verbatim>\<open>np.argmax\<close> of a Boolean array that holds a \<^verbatim>\<open>True\<close>: the least index of one.\<close>

lemma np_argmax_first:
  assumes "i < length xs" and "P (xs ! i)"
  shows "\<exists>k. np_argmax (map P xs) = Inr k \<and> k \<le> i \<and> P (xs ! k) \<and> (\<forall>j<k. \<not> P (xs ! j))"
proof -
  let ?k = "length (takeWhile (Not \<circ> P) xs)"
  have "P (xs ! i) \<in> P ` set xs"
    using assms(1) by (intro imageI nth_mem)
  then have mem: "True \<in> set (map P xs)"
    using assms(2) by simp
  have ne: "map P xs \<noteq> []" using assms by auto
  have k: "np_argmax (map P xs) = Inr ?k"
    using mem ne by (simp add: np_argmax_def takeWhile_map del: set_map)
  have le: "?k \<le> i"
  proof (rule ccontr)
    assume "\<not> ?k \<le> i"
    then have "i < ?k" by simp
    then have "(Not \<circ> P) (takeWhile (Not \<circ> P) xs ! i)"
      using nth_mem set_takeWhileD by metis
    then show False using \<open>i < ?k\<close> assms(2) by (simp add: takeWhile_nth)
  qed
  then have "?k < length xs" using assms(1) by simp
  then have here: "P (xs ! ?k)"
    using nth_length_takeWhile [of "Not \<circ> P" xs] by simp
  have before: "\<forall>j<?k. \<not> P (xs ! j)"
  proof (intro allI impI)
    fix j assume j: "j < ?k"
    then have "(Not \<circ> P) (takeWhile (Not \<circ> P) xs ! j)"
      using nth_mem set_takeWhileD by metis
    then show "\<not> P (xs ! j)" using j by (simp add: takeWhile_nth)
  qed
  from k le here before show ?thesis by blast
qed

lemma np_argmax_none:
  assumes "xs \<noteq> []" and "\<forall>i<length xs. \<not> P (xs ! i)"
  shows "np_argmax (map P xs) = Inr 0"
proof -
  have "True \<notin> set (map P xs)"
    using assms(2) by (auto simp add: in_set_conv_nth)
  then show ?thesis using assms(1) by (simp add: np_argmax_def del: set_map)
qed

lemma precision_at_90_curve:
  assumes ok: "curve_ok precision recall thresholds"
    and val: "precision_at_90 precision recall = Inr v"
  shows "if \<exists>i<length thresholds. recall ! i \<ge> 0.9
         then \<exists>i<length thresholds. recall ! i \<ge> 0.9
                \<and> (\<forall>j<length thresholds. recall ! j \<ge> 0.9 \<longrightarrow> thresholds ! i \<le> thresholds ! j)
                \<and> v = precision ! i
         else v = precision ! 0
                \<and> (\<forall>j<length recall. recall ! j \<le> recall ! 0)"
proof -
  let ?n = "length thresholds"
  let ?P = "\<lambda>r::real. r \<ge> 0.9"
  from ok have lp: "length precision = ?n + 1" and lr: "length recall = ?n + 1"
    and inc: "sorted_wrt (<) thresholds" and dec: "sorted_wrt (\<ge>) recall"
    by (simp_all add: curve_ok_def)
  have top: "\<forall>j<length recall. recall ! j \<le> recall ! 0"
  proof (intro allI impI)
    fix j assume j: "j < length recall"
    show "recall ! j \<le> recall ! 0"
    proof (cases "j = 0")
      case True
      then show ?thesis by simp
    next
      case False
      then have "0 < j" by simp
      with dec j show ?thesis by (simp add: sorted_wrt_iff_nth_less)
    qed
  qed
  show ?thesis
  proof (cases "\<exists>i<?n. recall ! i \<ge> 0.9")
    case True
    then obtain i where i: "i < ?n" "?P (recall ! i)" by blast
    then have "i < length recall" using lr by simp
    from np_argmax_first [of i recall ?P, OF this i(2)] obtain k where
      k: "np_argmax (map ?P recall) = Inr k" "k \<le> i" "?P (recall ! k)" "\<forall>j<k. \<not> ?P (recall ! j)"
      by blast
    have kn: "k < ?n" using k(2) i(1) by simp
    have least: "\<forall>j<?n. ?P (recall ! j) \<longrightarrow> thresholds ! k \<le> thresholds ! j"
    proof (intro allI impI)
      fix j assume j: "j < ?n" "?P (recall ! j)"
      then have "\<not> j < k" using k(4) by blast
      then have "k = j \<or> k < j" by auto
      then show "thresholds ! k \<le> thresholds ! j"
      proof
        assume "k = j" then show ?thesis by simp
      next
        assume "k < j"
        with inc j(1) have "thresholds ! k < thresholds ! j"
          by (simp add: sorted_wrt_iff_nth_less)
        then show ?thesis by simp
      qed
    qed
    have "precision_at_90 precision recall = Inr (precision ! k)"
      using k(1) kn lp by (simp add: precision_at_90_def)
    with val have "v = precision ! k" by simp
    with kn k(3) least have r:
      "\<exists>i<?n. recall ! i \<ge> 0.9
         \<and> (\<forall>j<?n. recall ! j \<ge> 0.9 \<longrightarrow> thresholds ! i \<le> thresholds ! j)
         \<and> v = precision ! i"
      by blast
    show ?thesis unfolding if_P [OF True] by (rule r)
  next
    case False
    have ne: "recall \<noteq> []" using lr by auto
    have idx: "np_argmax (map ?P recall) = Inr 0"
    proof (cases "\<exists>i<length recall. ?P (recall ! i)")
      case some: True
      then obtain i where i: "i < length recall" "?P (recall ! i)" by blast
      from np_argmax_first [of i recall ?P, OF this] obtain k where
        k: "np_argmax (map ?P recall) = Inr k" "k \<le> i" "?P (recall ! k)"
        by blast
      have "k = 0"
      proof (rule ccontr)
        assume "k \<noteq> 0"
        then have pos: "0 < k" by simp
        have kl: "k < length recall" using k(2) i(1) by simp
        have "0 < ?n" using pos kl lr by linarith
        with False have "\<not> ?P (recall ! 0)" by blast
        moreover have "recall ! k \<le> recall ! 0" using top kl by blast
        ultimately show False using k(3) by simp
      qed
      with k(1) show ?thesis by simp
    next
      case none: False
      then have "\<forall>i<length recall. \<not> ?P (recall ! i)" by blast
      with ne show ?thesis by (rule np_argmax_none)
    qed
    have "precision_at_90 precision recall = Inr (precision ! 0)"
      using idx lp by (simp add: precision_at_90_def)
    with val have "v = precision ! 0" by simp
    with top have r: "v = precision ! 0 \<and> (\<forall>j<length recall. recall ! j \<le> recall ! 0)"
      by blast
    show ?thesis unfolding if_not_P [OF False] by (rule r)
  qed
qed

text \<open>
  C5: the reported \<open>precision_at_90_recall\<close> is read off the precision-recall curve of
  the held-out test partition, a curve as scikit-learn documents it (\<open>curve_ok\<close>). When
  some threshold has recall at least 0.9, the metric is the precision at the smallest such
  threshold. When none has, the metric is the precision at the first point of the curve,
  where recall is highest.
\<close>

theorem precision_at_90_recall_metric:
  assumes trained: "snd (train_model W amb X y ts) = Inr res"
    and split: "split_call W amb X y ts = Inr (X_train, X_held, y_train, y_held)"
    and fitted: "fit_call W amb X_train y_train = Inr m"
    and proba: "predict_proba_1 W m X_held = Inr p"
    and curve: "precision_recall_curve W y_held p = Inr (precision, recall, thresholds)"
    and ok: "curve_ok precision recall thresholds"
  shows "if \<exists>i<length thresholds. recall ! i \<ge> 0.9
         then \<exists>i<length thresholds. recall ! i \<ge> 0.9
                \<and> (\<forall>j<length thresholds. recall ! j \<ge> 0.9 \<longrightarrow> thresholds ! i \<le> thresholds ! j)
                \<and> precision_at_90_recall res = precision ! i
         else precision_at_90_recall res = precision ! 0
                \<and> (\<forall>j<length recall. recall ! j \<le> recall ! 0)"
proof -
  from train_model_InrD [OF trained] obtain X_train' X_held' y_train' y_held' p' pr rc th where
    s': "split_call W amb X y ts = Inr (X_train', X_held', y_train', y_held')" and
    f': "fit_call W amb X_train' y_train' = Inr (model res)" and
    p': "predict_proba_1 W (model res) X_held' = Inr p'" and
    c': "precision_recall_curve W y_held' p' = Inr (pr, rc, th)" and
    m': "precision_at_90 pr rc = Inr (precision_at_90_recall res)"
    by blast
  from split s' have "X_train' = X_train" "X_held' = X_held" "y_train' = y_train" "y_held' = y_held"
    by simp_all
  with fitted f' proba p' curve c' have "pr = precision" "rc = recall"
    by simp_all
  with m' have "precision_at_90 precision recall = Inr (precision_at_90_recall res)"
    by simp
  then show ?thesis by (rule precision_at_90_curve [OF ok])
qed

lemma toy_curve_ok: "curve_ok [1 / 2, 2 / 3, 1, 1] [1, 1, 1 / 2, 0] [1 / 5, 1 / 2, 4 / 5]"
  by (simp add: curve_ok_def)

theorem precision_at_90_recall_metric_witness:
  "snd (train_model toy_world 0 toy_X [1, 0, 1, 0] (test_size toy_args)) = Inr toy_results
   \<and> split_call toy_world 0 toy_X [1, 0, 1, 0] (test_size toy_args)
       = Inr (toy_X, toy_X, [1, 0, 1, 0], [1, 0, 1, 0])
   \<and> fit_call toy_world 0 toy_X [1, 0, 1, 0] = Inr toy_model
   \<and> predict_proba_1 toy_world toy_model toy_X = Inr [4 / 5, 1 / 5, 1 / 2, 1 / 2]
   \<and> precision_recall_curve toy_world [1, 0, 1, 0] [4 / 5, 1 / 5, 1 / 2, 1 / 2]
       = Inr ([1 / 2, 2 / 3, 1, 1], [1, 1, 1 / 2, 0], [1 / 5, 1 / 2, 4 / 5])
   \<and> curve_ok [1 / 2, 2 / 3, 1, 1] [1, 1, 1 / 2, 0] [1 / 5, 1 / 2, 4 / 5]
   \<and> (\<exists>i<length [1 / 5, 1 / 2, 4 / 5 :: real]. [1, 1, 1 / 2, 0 :: real] ! i \<ge> 0.9)
   \<and> (\<exists>i<length [1 / 5, 1 / 2, 4 / 5 :: real]. [1, 1, 1 / 2, 0 :: real] ! i \<ge> 0.9
         \<and> (\<forall>j<length [1 / 5, 1 / 2, 4 / 5 :: real]. [1, 1, 1 / 2, 0 :: real] ! j \<ge> 0.9
               \<longrightarrow> [1 / 5, 1 / 2, 4 / 5 :: real] ! i \<le> [1 / 5, 1 / 2, 4 / 5] ! j)
         \<and> precision_at_90_recall toy_results = [1 / 2, 2 / 3, 1, 1] ! i)"
proof -
  have s: "split_call toy_world 0 toy_X [1, 0, 1, 0] (test_size toy_args)
       = Inr (toy_X, toy_X, [1, 0, 1, 0], [1, 0, 1, 0])"
    by (simp add: split_call_def toy_world_def)
  have f: "fit_call toy_world 0 toy_X [1, 0, 1, 0] = Inr toy_model"
    by (simp add: fit_call_def toy_world_def toy_model_def toy_X_def)
  have p: "predict_proba_1 toy_world toy_model toy_X = Inr [4 / 5, 1 / 5, 1 / 2, 1 / 2]"
    by (simp add: toy_world_def)
  have c: "precision_recall_curve toy_world [1, 0, 1, 0] [4 / 5, 1 / 5, 1 / 2, 1 / 2]
       = Inr ([1 / 2, 2 / 3, 1, 1], [1, 1, 1 / 2, 0], [1 / 5, 1 / 2, 4 / 5])"
    by (simp add: toy_world_def)
  have some: "\<exists>i<length [1 / 5, 1 / 2, 4 / 5 :: real]. [1, 1, 1 / 2, 0 :: real] ! i \<ge> 0.9"
    by (rule exI [of _ 0]) simp
  note m = precision_at_90_recall_metric [OF toy_trained [of 0] s f p c toy_curve_ok,
      unfolded if_P [OF some]]
  from toy_trained [of 0] s f p c toy_curve_ok some m show ?thesis
    by (intro conjI)
qed

subsection \<open>Reproducibility\<close>

lemma fit_call_params: "fit_call W a X y = Inr m \<Longrightarrow> params m = lr_args"
  by (auto simp add: fit_call_def split: sum.splits)

lemma seeded_split:
  "seeded W \<Longrightarrow> split_call W a X y ts = split_call W a' X y ts"
  unfolding seeded_def split_call_def by metis

lemma seeded_fit:
  assumes "seeded W"
  shows "fit_call W a X y = fit_call W a' X y"
proof -
  have "random_state lr_args \<noteq> None" by (simp add: lr_args_def)
  with assms have "fit W a lr_args X y = fit W a' lr_args X y"
    unfolding seeded_def by metis
  then show ?thesis by (simp add: fit_call_def)
qed

lemma seeded_cross_val:
  assumes "seeded W" and "params m = lr_args"
  shows "cross_val_score W a m X y cv sc = cross_val_score W a' m X y cv sc"
proof -
  have "random_state (params m) \<noteq> None" using assms(2) by (simp add: lr_args_def)
  with assms(1) show ?thesis unfolding seeded_def by metis
qed

lemma bind_lib_cong:
  assumes "r = r'" and "\<And>x. r' = Inr x \<Longrightarrow> f x = g x"
  shows "bind_io (lib_call r) f = bind_io (lib_call r') g"
  using assms by (cases r') (simp_all add: bind_lib_call)

lemma seeded_train_model:
  assumes s: "seeded W"
  shows "train_model W a X y ts = train_model W a' X y ts"
proof -
  have tail: "bind_io (lib_call (fit_call W a X_train y_train)) (\<lambda>m. k a m)
            = bind_io (lib_call (fit_call W a' X_train y_train)) (\<lambda>m. k a' m)"
    if "\<And>m. params m = lr_args \<Longrightarrow> k a m = k a' m" for X_train y_train
      and k :: "'a \<Rightarrow> estimator \<Rightarrow> results io"
    using that by (intro bind_lib_cong seeded_fit [OF s]) (simp add: fit_call_params)
  show ?thesis
    unfolding train_model_def seeded_split [OF s, of a X y ts a']
    apply (rule arg_cong [where f = "bind_io (emit (Print TrainingModel))"])
    apply (rule ext)
    apply (rule bind_lib_cong [OF refl])
    apply (simp only: split_paired_all prod.case)
    apply (rule tail)
    apply (simp add: seeded_cross_val [OF s, where a = a and a' = a'])
    done
qed

text \<open>The files and the exit status of a run, stage by stage.\<close>

lemma written_bind:
  "written (fst (bind_io m f))
     = written (fst m) @ (case snd m of Inl e \<Rightarrow> [] | Inr x \<Rightarrow> written (fst (f x)))"
  by (simp add: fst_bind written_append split: sum.splits)

lemma written_export_model:
  "written (fst (export_model now res X out))
     = (case first (est_coef (model res)) of
          Inl e \<Rightarrow> []
        | Inr coef0 \<Rightarrow>
            (case first (est_intercept (model res)) of
               Inl e \<Rightarrow> []
             | Inr b \<Rightarrow> [(out, ''model_weights.json'', model_data X coef0 b),
                         (out, ''model_metrics.json'', metrics now res)]))"
  by (simp add: export_model_eq split: sum.splits)

lemma snd_export_model:
  "snd (export_model now res X out)
     = (case first (est_coef (model res)) of
          Inl e \<Rightarrow> Inl e
        | Inr coef0 \<Rightarrow>
            (case first (est_intercept (model res)) of Inl e \<Rightarrow> Inl e | Inr b \<Rightarrow> Inr ()))"
  by (simp add: export_model_eq split: sum.splits)

lemma written_quality_gate: "written (fst (quality_gate res)) = []"
  by (simp add: quality_gate_eq)

lemma snd_quality_gate: "snd (quality_gate res) = Inr ()"
  by (simp add: quality_gate_eq)

lemma written_main_body:
  "written (fst (main_body W amb now a))
     = (case snd (load_data W (data_path a)) of
          Inl e \<Rightarrow> []
        | Inr (X, y) \<Rightarrow>
            (case snd (train_model W amb X y (test_size a)) of
               Inl e \<Rightarrow> []
             | Inr res \<Rightarrow> written (fst (export_model now res X (output_path a)))))"
  by (simp add: main_body_def written_bind written_load_data written_train_model
      written_quality_gate snd_quality_gate snd_bind fst_emit split: sum.splits prod.splits)

lemma snd_main_body:
  "snd (main_body W amb now a)
     = (case snd (load_data W (data_path a)) of
          Inl e \<Rightarrow> Inl e
        | Inr (X, y) \<Rightarrow>
            (case snd (train_model W amb X y (test_size a)) of
               Inl e \<Rightarrow> Inl e
             | Inr res \<Rightarrow> snd (export_model now res X (output_path a))))"
  by (simp add: main_body_def snd_bind snd_quality_gate snd_emit split: sum.splits prod.splits)

lemma written_main: "written (fst (main W amb now a)) = written (fst (main_body W amb now a))"
  by (simp add: main_def written_append split: prod.splits sum.splits)

lemma snd_main:
  "snd (main W amb now a) = (case snd (main_body W amb now a) of Inl e \<Rightarrow> 1 | Inr u \<Rightarrow> 0)"
  by (simp add: main_def split: prod.splits sum.splits)

lemma weights_written_main:
  "weights_written (fst (main W amb now a))
     = (case snd (load_data W (data_path a)) of
          Inl e \<Rightarrow> []
        | Inr (X, y) \<Rightarrow>
            (case snd (train_model W amb X y (test_size a)) of
               Inl e \<Rightarrow> []
             | Inr res \<Rightarrow>
                 (case first (est_coef (model res)) of
                    Inl e \<Rightarrow> []
                  | Inr coef0 \<Rightarrow>
                      (case first (est_intercept (model res)) of
                         Inl e \<Rightarrow> []
                       | Inr b \<Rightarrow> [model_data X coef0 b]))))"
  by (simp add: weights_written_def written_main written_main_body written_export_model
      split: sum.splits prod.splits)

text \<open>
  C6: training is reproducible. In a world where a call given a seed ignores the ambient
  state (\<open>seeded\<close>), two runs on the same dataset with the same test fraction, in ambient
  states \<open>a\<close> and \<open>a'\<close> and at clock readings \<open>now\<close> and \<open>now'\<close>, make the same split, fit
  the same estimator, return the same training results, write the same weights document and
  exit with the same status: the script passes the seed 42 to the split and to the
  estimator. The split is requested stratified by the labels, so in a world that stratifies
  as scikit-learn does (\<open>stratified\<close>) both parts keep every class's share of the rows, up
  to less than one row.
\<close>

theorem training_is_reproducible:
  assumes s: "seeded W" and st: "stratified W"
  shows "split_call W a X y ts = split_call W a' X y ts
       \<and> (\<forall>X_train y_train. fit_call W a X_train y_train = fit_call W a' X_train y_train)
       \<and> train_model W a X y ts = train_model W a' X y ts
       \<and> weights_written (fst (main W a now args)) = weights_written (fst (main W a' now' args))
       \<and> snd (main W a now args) = snd (main W a' now' args)
       \<and> (\<forall>X_train X_held y_train y_held.
            split_call W a X y ts = Inr (X_train, X_held, y_train, y_held)
            \<longrightarrow> proportional y y_train \<and> proportional y y_held)"
proof -
  have train: "train_model W a X' y' ts' = train_model W a' X' y' ts'" for X' y' ts'
    by (rule seeded_train_model [OF s])
  have w: "weights_written (fst (main W a now args)) = weights_written (fst (main W a' now' args))"
    by (simp add: weights_written_main train cong: sum.case_cong)
  have e: "snd (main W a now args) = snd (main W a' now' args)"
    by (simp add: snd_main snd_main_body snd_export_model train cong: sum.case_cong)
  have p: "proportional y y_train \<and> proportional y y_held"
    if "split_call W a X y ts = Inr (X_train, X_held, y_train, y_held)"
    for X_train X_held y_train y_held
    using st that unfolding stratified_def split_call_def by metis
  from seeded_split [OF s] seeded_fit [OF s] train w e p show ?thesis by blast
qed

lemma toy_seeded: "seeded toy_world"
  by (simp add: seeded_def toy_world_def)

lemma proportional_self: "labels \<noteq> [] \<Longrightarrow> proportional labels labels"
  by (simp add: proportional_def)

lemma toy_stratified: "stratified toy_world"
  by (auto simp add: stratified_def toy_world_def proportional_self split: if_splits)

theorem training_is_reproducible_witness:
  "seeded toy_world \<and> stratified toy_world
   \<and> split_call toy_world 0 toy_X [1, 0, 1, 0] (1 / 5)
       = split_call toy_world 1 toy_X [1, 0, 1, 0] (1 / 5)
   \<and> fit_call toy_world 0 toy_X [1, 0, 1, 0] = fit_call toy_world 1 toy_X [1, 0, 1, 0]
   \<and> train_model toy_world 0 toy_X [1, 0, 1, 0] (1 / 5)
       = train_model toy_world 1 toy_X [1, 0, 1, 0] (1 / 5)
   \<and> weights_written (fst (main toy_world 0 ''Mon'' toy_args))
       = weights_written (fst (main toy_world 1 ''Tue'' toy_args))
   \<and> snd (main toy_world 0 ''Mon'' toy_args) = snd (main toy_world 1 ''Tue'' toy_args)
   \<and> split_call toy_world 0 toy_X [1, 0, 1, 0] (1 / 5)
       = Inr (toy_X, toy_X, [1, 0, 1, 0], [1, 0, 1, 0])
   \<and> proportional [1, 0, 1, 0] [1, 0, 1, 0]"
proof -
  note m = training_is_reproducible [OF toy_seeded toy_stratified,
      of 0 toy_X "[1, 0, 1, 0]" "1 / 5" 1 "''Mon''" toy_args "''Tue''"]
  have sp: "split_call toy_world 0 toy_X [1, 0, 1, 0] (1 / 5)
       = Inr (toy_X, toy_X, [1, 0, 1, 0], [1, 0, 1, 0])"
    by (simp add: split_call_def toy_world_def)
  from m have c1: "split_call toy_world 0 toy_X [1, 0, 1, 0] (1 / 5)
       = split_call toy_world 1 toy_X [1, 0, 1, 0] (1 / 5)"
    by (rule conjunct1)
  from m have c2: "fit_call toy_world 0 toy_X [1, 0, 1, 0] = fit_call toy_world 1 toy_X [1, 0, 1, 0]"
    by (elim conjE allE)
  from m have c3: "train_model toy_world 0 toy_X [1, 0, 1, 0] (1 / 5)
       = train_model toy_world 1 toy_X [1, 0, 1, 0] (1 / 5)"
    by (elim conjE)
  from m have c4: "weights_written (fst (main toy_world 0 ''Mon'' toy_args))
       = weights_written (fst (main toy_world 1 ''Tue'' toy_args))"
    by (elim conjE)
  from m have c5: "snd (main toy_world 0 ''Mon'' toy_args) = snd (main toy_world 1 ''Tue'' toy_args)"
    by (elim conjE)
  from m have "split_call toy_world 0 toy_X [1, 0, 1, 0] (1 / 5)
       = Inr (toy_X, toy_X, [1, 0, 1, 0], [1, 0, 1, 0])
       \<longrightarrow> proportional [1, 0, 1, 0] [1, 0, 1, 0] \<and> proportional [1, 0, 1, 0] [1, 0, 1, 0]"
    by (elim conjE allE)
  with sp have c6: "proportional [1, 0, 1, 0] [1, 0, 1, 0]"
    by (elim impE conjE)
  from toy_seeded toy_stratified c1 c2 c3 c4 c5 sp c6 show ?thesis
    by (intro conjI)
qed

subsection \<open>Columns the script does not ask for\<close>

lemma agree_features:
  assumes "map (map_of df1) required_cols = map (map_of df2) required_cols"
  shows "features_of df1 = features_of df2" and "labels_of df1 = labels_of df2"
proof -
  have eq: "map_of df1 c = map_of df2 c" if "c \<in> set required_cols" for c
    using assms that by (simp add: map_eq_conv)
  have "map_of df1 c = map_of df2 c" if "c \<in> set (butlast required_cols)" for c
    using that butlast_required eq by blast
  then show "features_of df1 = features_of df2"
    by (simp add: features_of_def)
  show "labels_of df1 = labels_of df2"
    using eq [OF label_required] by (simp add: labels_of_def)
qed

lemma without_date_export:
  "map without_training_date (written (fst (export_model now res X out)))
     = map without_training_date (written (fst (export_model now' res X out)))"
  by (simp add: written_export_model metrics_def model_data_def split: sum.splits)

text \<open>
  C10: columns beyond the fourteen required ones are ignored. Two datasets that both have
  the required columns and agree on their cells give \<open>load_data\<close> the same features and
  labels, whatever else they hold. Run in the same ambient state, the two runs end with
  the same exit status and write the same files; run at different clock readings, the
  files still agree once \<open>training_date\<close> is left out.
\<close>

theorem extra_columns_ignored:
  assumes r1: "read_csv W p1 = Inr df1" and r2: "read_csv W p2 = Inr df2"
    and c1: "set required_cols \<subseteq> set (columns df1)"
    and c2: "set required_cols \<subseteq> set (columns df2)"
    and agree: "map (map_of df1) required_cols = map (map_of df2) required_cols"
  shows "snd (load_data W p1) = Inr (features_of df1, labels_of df1)
       \<and> snd (load_data W p2) = snd (load_data W p1)
       \<and> written (fst (main W amb now \<lparr>data_path = p2, output_path = out, test_size = ts\<rparr>))
           = written (fst (main W amb now \<lparr>data_path = p1, output_path = out, test_size = ts\<rparr>))
       \<and> map without_training_date
             (written (fst (main W amb now' \<lparr>data_path = p2, output_path = out, test_size = ts\<rparr>)))
           = map without_training_date
               (written (fst (main W amb now \<lparr>data_path = p1, output_path = out, test_size = ts\<rparr>)))
       \<and> snd (main W amb now' \<lparr>data_path = p2, output_path = out, test_size = ts\<rparr>)
           = snd (main W amb now \<lparr>data_path = p1, output_path = out, test_size = ts\<rparr>)"
proof -
  note l1 = load_data_present_snd [OF r1 c1]
  have l2: "snd (load_data W p2) = Inr (features_of df1, labels_of df1)"
    by (simp add: load_data_present_snd [OF r2 c2] agree_features [OF agree])
  have w: "written (fst (main W amb now \<lparr>data_path = p2, output_path = out, test_size = ts\<rparr>))
           = written (fst (main W amb now \<lparr>data_path = p1, output_path = out, test_size = ts\<rparr>))"
    by (simp add: written_main written_main_body l1 l2 cong: sum.case_cong)
  have d: "map without_training_date
             (written (fst (main W amb now' \<lparr>data_path = p2, output_path = out, test_size = ts\<rparr>)))
           = map without_training_date
               (written (fst (main W amb now \<lparr>data_path = p1, output_path = out, test_size = ts\<rparr>)))"
    by (simp add: written_main written_main_body l1 l2 without_date_export [of now' _ _ _ now]
        split: sum.splits cong: sum.case_cong)
  have e: "snd (main W amb now' \<lparr>data_path = p2, output_path = out, test_size = ts\<rparr>)
           = snd (main W amb now \<lparr>data_path = p1, output_path = out, test_size = ts\<rparr>)"
    by (simp add: snd_main snd_main_body snd_export_model l1 l2 cong: sum.case_cong)
  from l1 l2 w d e show ?thesis by simp
qed

lemma toy_extra_columns: "set required_cols \<subseteq> set (columns toy_frame_extra)"
  by (simp add: toy_frame_extra_def toy_frame_def columns_def comp_def) blast

lemma toy_extra_agree:
  "map (map_of toy_frame) required_cols = map (map_of toy_frame_extra) required_cols"
  by (simp add: toy_frame_extra_def toy_frame_def required_cols_def)

lemma toy_extra_differ: "columns toy_frame_extra \<noteq> columns toy_frame"
  by (simp add: toy_frame_extra_def toy_frame_def columns_def)

theorem extra_columns_ignored_witness:
  "read_csv toy_world ''tokens.csv'' = Inr toy_frame
   \<and> read_csv toy_world ''tokens_extra.csv'' = Inr toy_frame_extra
   \<and> set required_cols \<subseteq> set (columns toy_frame)
   \<and> set required_cols \<subseteq> set (columns toy_frame_extra)
   \<and> map (map_of toy_frame) required_cols = map (map_of toy_frame_extra) required_cols
   \<and> columns toy_frame_extra \<noteq> columns toy_frame
   \<and> snd (load_data toy_world ''tokens_extra.csv'') = snd (load_data toy_world ''tokens.csv'')
   \<and> map without_training_date
         (written (fst (main toy_world 0 ''Tue''
            \<lparr>data_path = ''tokens_extra.csv'', output_path = ''out'', test_size = 1 / 5\<rparr>)))
       = map without_training_date
           (written (fst (main toy_world 0 ''Mon''
              \<lparr>data_path = ''tokens.csv'', output_path = ''out'', test_size = 1 / 5\<rparr>)))
   \<and> snd (main toy_world 0 ''Tue''
            \<lparr>data_path = ''tokens_extra.csv'', output_path = ''out'', test_size = 1 / 5\<rparr>)
       = snd (main toy_world 0 ''Mon''
            \<lparr>data_path = ''tokens.csv'', output_path = ''out'', test_size = 1 / 5\<rparr>)"
proof -
  have r1: "read_csv toy_world ''tokens.csv'' = Inr toy_frame"
    by (simp add: toy_world_def)
  have r2: "read_csv toy_world ''tokens_extra.csv'' = Inr toy_frame_extra"
    by (simp add: toy_world_def)
  note m = extra_columns_ignored [OF r1 r2 toy_columns toy_extra_columns toy_extra_agree,
      of 0 "''Mon''" "''out''" "1 / 5" "''Tue''"]
  from m have m2: "snd (load_data toy_world ''tokens_extra.csv'') = snd (load_data toy_world ''tokens.csv'')"
    by (elim conjE)
  from m have m4: "map without_training_date
         (written (fst (main toy_world 0 ''Tue''
            \<lparr>data_path = ''tokens_extra.csv'', output_path = ''out'', test_size = 1 / 5\<rparr>)))
       = map without_training_date
           (written (fst (main toy_world 0 ''Mon''
              \<lparr>data_path = ''tokens.csv'', output_path = ''out'', test_size = 1 / 5\<rparr>)))"
    by (elim conjE)
  from m have m5: "snd (main toy_world 0 ''Tue''
            \<lparr>data_path = ''tokens_extra.csv'', output_path = ''out'', test_size = 1 / 5\<rparr>)
       = snd (main toy_world 0 ''Mon''
            \<lparr>data_path = ''tokens.csv'', output_path = ''out'', test_size = 1 / 5\<rparr>)"
    by (elim conjE)
  from r1 r2 toy_columns toy_extra_columns toy_extra_agree toy_extra_differ m2 m4 m5
  show ?thesis by (intro conjI)
qed

subsection \<open>The scoring engine: reload and rollback\<close>

lemma validate_invalid:
  assumes "\<not> keys_match d \<or> \<not> all_finite d \<or> \<not> threshold_in_range d"
  shows "validate d =
           Inl (if \<not> keys_match d then KeySetMismatch
                else if \<not> all_finite d then NonFiniteValue else ThresholdOutOfRange)"
  using assms by (auto simp add: validate_def)

text \<open>
  C7 (against the engine as the specification describes it): reloading with a weights
  document that fails validation (its key set is not the Feature Schema, or a value is not
  finite, or the threshold is outside the unit interval) returns an artifact error naming
  the first check that failed, and leaves the engine's state, hence every score, as it
  was. The state always holds an active artifact.
\<close>

theorem reload_invalid_keeps_state:
  assumes "\<not> keys_match d \<or> \<not> all_finite d \<or> \<not> threshold_in_range d"
  shows "reload st d =
           (st, Inl (ArtifactError
                  (if \<not> keys_match d then KeySetMismatch
                   else if \<not> all_finite d then NonFiniteValue else ThresholdOutOfRange)))
       \<and> active (fst (reload st d)) = active st
       \<and> previous (fst (reload st d)) = previous st
       \<and> (\<forall>features. engine_score (fst (reload st d)) features = engine_score st features)"
  by (simp add: reload_def validate_invalid [OF assms])

lemma toy_short_mismatch: "\<not> keys_match toy_document_short"
proof -
  have "''price_volatility'' \<in> set feature_schema"
    by (simp add: feature_schema_def)
  moreover have "''price_volatility'' \<notin> set (map fst (doc_weights toy_document_short))"
    by (simp add: toy_document_short_def feature_schema_def)
  ultimately show ?thesis unfolding keys_match_def by metis
qed

theorem reload_invalid_keeps_state_witness:
  "\<not> keys_match toy_document_short
   \<and> reload (startup toy_artifact) toy_document_short
       = (startup toy_artifact, Inl (ArtifactError KeySetMismatch))
   \<and> active (fst (reload (startup toy_artifact) toy_document_short)) = toy_artifact
   \<and> engine_score (fst (reload (startup toy_artifact) toy_document_short)) []
       = engine_score (startup toy_artifact) []"
proof -
  have h: "\<not> keys_match toy_document_short \<or> \<not> all_finite toy_document_short
             \<or> \<not> threshold_in_range toy_document_short"
    using toy_short_mismatch by (rule disjI1)
  from reload_invalid_keeps_state [OF h, of "startup toy_artifact"] toy_short_mismatch
  show ?thesis by (simp add: startup_def)
qed

text \<open>
  C8 (against the engine as the specification describes it): after a successful reload, a
  rollback succeeds and makes the artifact that was active before the reload active again,
  so every score is what it was before; a second rollback with no reload in between fails
  with \<open>NoPriorVersionError\<close>, and so does a rollback right after startup.
\<close>

theorem rollback_after_reload:
  assumes "reload st d = (st', Inr ())"
  shows "rollback st' = (\<lparr>active = active st, previous = None\<rparr>, Inr ())
       \<and> (\<forall>features. engine_score (fst (rollback st')) features = engine_score st features)
       \<and> rollback (fst (rollback st')) = (fst (rollback st'), Inl NoPriorVersionError)
       \<and> rollback (startup bootstrap) = (startup bootstrap, Inl NoPriorVersionError)"
proof -
  from assms obtain a where st': "st' = \<lparr>active = a, previous = Some (active st)\<rparr>"
    by (auto simp add: reload_def split: sum.splits)
  show ?thesis
    by (simp add: st' rollback_def engine_score_def startup_def)
qed

lemma toy_validate: "validate toy_document = Inr toy_artifact_new"
proof -
  have k: "keys_match toy_document"
    by (simp add: keys_match_def toy_document_def comp_def)
  have f: "all_finite toy_document"
    by (simp add: all_finite_def toy_document_def list_all_iff)
  have t: "threshold_in_range toy_document"
    by (simp add: threshold_in_range_def toy_document_def)
  show ?thesis
    by (simp add: validate_def k f t) (simp add: toy_document_def toy_artifact_new_def comp_def)
qed

theorem rollback_after_reload_witness:
  "reload (startup toy_artifact) toy_document
     = (\<lparr>active = toy_artifact_new, previous = Some toy_artifact\<rparr>, Inr ())
   \<and> rollback \<lparr>active = toy_artifact_new, previous = Some toy_artifact\<rparr>
       = (\<lparr>active = toy_artifact, previous = None\<rparr>, Inr ())
   \<and> rollback (fst (rollback \<lparr>active = toy_artifact_new, previous = Some toy_artifact\<rparr>))
       = (\<lparr>active = toy_artifact, previous = None\<rparr>, Inl NoPriorVersionError)
   \<and> rollback (startup toy_artifact) = (startup toy_artifact, Inl NoPriorVersionError)"
proof -
  have r: "reload (startup toy_artifact) toy_document
     = (\<lparr>active = toy_artifact_new, previous = Some toy_artifact\<rparr>, Inr ())"
    by (simp add: reload_def toy_validate startup_def)
  from rollback_after_reload [OF r, of toy_artifact] r
  show ?thesis by (simp add: startup_def)
qed

end
